theory Spec2Isabelle
  imports Complex_Main
begin

section \<open>Telemetry decoder\<close>

text \<open>
  The decoder of \<^verbatim>\<open>Shibalik_drone.py\<close> matches the telemetry string against one
  regular expression with \<^verbatim>\<open>re.match\<close> (anchored at the start only) and converts the
  captured groups with \<^verbatim>\<open>float\<close>. The expression is a sequence of literals and of
  capture groups of the shape \<^verbatim>\<open>(cls+)\<close>, so it is modelled as a list of items and
  matched by a backtracking matcher: a group first tries the longest run of
  characters of its class and gives characters back one at a time, as the greedy
  \<^verbatim>\<open>+\<close> of Python does.

  Strings are lists of 8-bit characters: the model covers inputs whose code points
  are below 256.
\<close>

datatype item = Lit string | Grp "char \<Rightarrow> bool"

text \<open>\<^verbatim>\<open>\d\<close>: on code points below 256 the decimal digits are \<^verbatim>\<open>0\<close> to \<^verbatim>\<open>9\<close>.\<close>

definition is_digit :: "char \<Rightarrow> bool" where
  "is_digit c = (c \<in> set ''0123456789'')"

text \<open>
  \<^verbatim>\<open>\w\<close>: letters, digits and the underscore; on a \<^verbatim>\<open>str\<close> pattern also the
  alphanumeric characters of Latin-1.
\<close>

definition is_word :: "char \<Rightarrow> bool" where
  "is_word c = (let n = (of_char c :: nat) in
     (48 \<le> n \<and> n \<le> 57) \<or> (65 \<le> n \<and> n \<le> 90) \<or> n = 95 \<or> (97 \<le> n \<and> n \<le> 122) \<or>
     n = 170 \<or> n = 178 \<or> n = 179 \<or> n = 181 \<or> n = 185 \<or> n = 186 \<or>
     (188 \<le> n \<and> n \<le> 190) \<or> (192 \<le> n \<and> n \<le> 214) \<or> (216 \<le> n \<and> n \<le> 246) \<or>
     248 \<le> n)"

text \<open>The classes \<^verbatim>\<open>[-\d.]\<close>, \<^verbatim>\<open>[\d.]\<close> and \<^verbatim>\<open>[-\d.,]\<close>.\<close>

definition cls_signed :: "char \<Rightarrow> bool" where
  "cls_signed c = (c = CHR ''-'' \<or> is_digit c \<or> c = CHR ''.'')"

definition cls_unsigned :: "char \<Rightarrow> bool" where
  "cls_unsigned c = (is_digit c \<or> c = CHR ''.'')"

definition cls_gyro :: "char \<Rightarrow> bool" where
  "cls_gyro c = (c = CHR ''-'' \<or> is_digit c \<or> c = CHR ''.'' \<or> c = CHR '','')"

fun first_some :: "('a \<Rightarrow> 'b option) \<Rightarrow> 'a list \<Rightarrow> 'b option" where
  "first_some f [] = None"
| "first_some f (k # ks) = (case f k of Some r \<Rightarrow> Some r | None \<Rightarrow> first_some f ks)"

text \<open>
  \<open>re_match items s\<close> is the list of captured groups of the first successful
  match of \<open>items\<close> at the start of \<open>s\<close>, or \<open>None\<close> when there is none. Text
  after the match is ignored.
\<close>

fun re_match :: "item list \<Rightarrow> string \<Rightarrow> string list option" where
  "re_match [] s = Some []"
| "re_match (Lit l # rest) s =
     (if take (length l) s = l then re_match rest (drop (length l) s) else None)"
| "re_match (Grp cls # rest) s =
     first_some (\<lambda>k. map_option ((#) (take k s)) (re_match rest (drop k s)))
       (rev [1 ..< Suc (length (takeWhile cls s))])"

definition pattern :: "item list" where
  "pattern =
     [Lit ''X-'', Grp cls_signed, Lit ''-Y-'', Grp cls_signed, Lit ''-BAT-'', Grp cls_unsigned,
      Lit ''-GYR-['', Grp cls_gyro, Lit '']-WIND-'', Grp cls_unsigned,
      Lit ''-DUST-'', Grp cls_unsigned, Lit ''-SENS-'', Grp is_word]"

text \<open>\<^verbatim>\<open>str.split(',')\<close>: the pieces between commas; an empty string gives one empty piece.\<close>

fun split_comma :: "string \<Rightarrow> string list" where
  "split_comma [] = [[]]"
| "split_comma (c # cs) =
     (if c = CHR '','' then [] # split_comma cs
      else (c # hd (split_comma cs)) # tl (split_comma cs))"

definition digits_val :: "string \<Rightarrow> nat" where
  "digits_val ds = foldl (\<lambda>a c. 10 * a + (of_char c - 48)) 0 ds"

section \<open>Floating-point values\<close>

text \<open>
  A Python float is a finite number, an infinity or a NaN. Finite results are kept
  exact here: rounding to the nearest double is not modelled. Overflow is: a result
  whose magnitude reaches \<open>2 ^ 1024 - 2 ^ 970\<close>, half a unit above the largest
  double, is an infinity.
\<close>

datatype fl = Fin real | PInf | NInf | NaN

datatype error = ValueError | OverflowError

definition overflows :: "real \<Rightarrow> bool" where
  "overflows r = (2 ^ 1024 - 2 ^ 970 \<le> \<bar>r\<bar>)"

definition fl_of_real :: "real \<Rightarrow> fl" where
  "fl_of_real r = (if overflows r then (if 0 < r then PInf else NInf) else Fin r)"

text \<open>A finite float: a number below the overflow threshold.\<close>

definition fl_finite :: "fl \<Rightarrow> bool" where
  "fl_finite a = (case a of Fin v \<Rightarrow> \<not> overflows v | _ \<Rightarrow> False)"

text \<open>The comparisons \<^verbatim>\<open><\<close> and \<^verbatim>\<open><=\<close>; every comparison with a NaN is false.\<close>

fun fl_lt :: "fl \<Rightarrow> fl \<Rightarrow> bool" where
  "fl_lt (Fin a) (Fin b) = (a < b)"
| "fl_lt (Fin a) PInf = True"
| "fl_lt (Fin a) NInf = False"
| "fl_lt (Fin a) NaN = False"
| "fl_lt PInf b = False"
| "fl_lt NInf (Fin b) = True"
| "fl_lt NInf PInf = True"
| "fl_lt NInf NInf = False"
| "fl_lt NInf NaN = False"
| "fl_lt NaN b = False"

definition fl_le :: "fl \<Rightarrow> fl \<Rightarrow> bool" where
  "fl_le a b = (a \<noteq> NaN \<and> (a = b \<or> fl_lt a b))"

fun fl_abs :: "fl \<Rightarrow> fl" where
  "fl_abs (Fin a) = Fin \<bar>a\<bar>"
| "fl_abs PInf = PInf"
| "fl_abs NInf = PInf"
| "fl_abs NaN = NaN"

fun fl_add :: "fl \<Rightarrow> fl \<Rightarrow> fl" where
  "fl_add (Fin a) (Fin b) = fl_of_real (a + b)"
| "fl_add (Fin a) PInf = PInf"
| "fl_add (Fin a) NInf = NInf"
| "fl_add PInf (Fin b) = PInf"
| "fl_add PInf PInf = PInf"
| "fl_add PInf NInf = NaN"
| "fl_add NInf (Fin b) = NInf"
| "fl_add NInf NInf = NInf"
| "fl_add NInf PInf = NaN"
| "fl_add NaN b = NaN"
| "fl_add a NaN = NaN"

fun fl_neg :: "fl \<Rightarrow> fl" where
  "fl_neg (Fin a) = Fin (- a)"
| "fl_neg PInf = NInf"
| "fl_neg NInf = PInf"
| "fl_neg NaN = NaN"

definition fl_sub :: "fl \<Rightarrow> fl \<Rightarrow> fl" where
  "fl_sub a b = fl_add a (fl_neg b)"

text \<open>
  \<^verbatim>\<open>v ** 2\<close>: unlike the addition, the power of a finite float raises
  \<^verbatim>\<open>OverflowError\<close> when its result overflows.
\<close>

fun fl_pow2 :: "fl \<Rightarrow> error + fl" where
  "fl_pow2 (Fin a) = (if overflows (a * a) then Inl OverflowError else Inr (Fin (a * a)))"
| "fl_pow2 PInf = Inr PInf"
| "fl_pow2 NInf = Inr PInf"
| "fl_pow2 NaN = Inr NaN"

text \<open>\<^verbatim>\<open>v ** 0.5\<close>, applied in the source to a sum of squares, which is never negative.\<close>

fun fl_sqrt :: "fl \<Rightarrow> fl" where
  "fl_sqrt (Fin a) = Fin (sqrt a)"
| "fl_sqrt PInf = PInf"
| "fl_sqrt NInf = PInf"
| "fl_sqrt NaN = NaN"

text \<open>
  \<^verbatim>\<open>int\<close> of a float truncates towards zero; it raises \<^verbatim>\<open>OverflowError\<close> for an
  infinity and \<^verbatim>\<open>ValueError\<close> for a NaN.
\<close>

fun int_py :: "fl \<Rightarrow> error + int" where
  "int_py (Fin v) = Inr (if 0 \<le> v then \<lfloor>v\<rfloor> else \<lceil>v\<rceil>)"
| "int_py PInf = Inl OverflowError"
| "int_py NInf = Inl OverflowError"
| "int_py NaN = Inl ValueError"

text \<open>
  \<^verbatim>\<open>float\<close> on the strings that reach it, which consist of digits, \<^verbatim>\<open>-\<close> and
  \<^verbatim>\<open>.\<close> only: an optional sign, digits with at most one decimal point, and at least
  one digit. Everything else raises \<^verbatim>\<open>ValueError\<close>, here \<open>None\<close>. A numeral too
  large for a double gives an infinity.
\<close>

definition float_py :: "string \<Rightarrow> fl option" where
  "float_py s =
     (let neg = (s \<noteq> [] \<and> hd s = CHR ''-'');
          body = (if neg then tl s else s);
          ip = takeWhile is_digit body;
          r = dropWhile is_digit body;
          fp = tl r;
          ok = ((r = [] \<or> (hd r = CHR ''.'' \<and> list_all is_digit fp)) \<and> (ip \<noteq> [] \<or> fp \<noteq> []));
          mag = real (digits_val ip) + real (digits_val fp) / 10 ^ length fp
      in if ok then Some (fl_of_real (if neg then - mag else mag)) else None)"

text \<open>
  The dictionary returned by \<^verbatim>\<open>parse_telemetry\<close>; \<open>xpos\<close> and \<open>ypos\<close> are its
  keys \<^verbatim>\<open>'x'\<close> and \<^verbatim>\<open>'y'\<close>. The gyro entry is a list of any length: the source
  converts whatever \<^verbatim>\<open>split(',')\<close> returns.
\<close>

record telemetry =
  xpos :: fl
  ypos :: fl
  battery :: fl
  gyro :: "fl list"
  wind :: fl
  dust :: fl
  sensor :: string

definition parse_telemetry :: "string \<Rightarrow> telemetry option" where
  "parse_telemetry telemetry_str =
     (case re_match pattern telemetry_str of
        Some [g1, g2, g3, g4, g5, g6, g7] \<Rightarrow>
          (case float_py g1 of None \<Rightarrow> None | Some x \<Rightarrow>
           case float_py g2 of None \<Rightarrow> None | Some y \<Rightarrow>
           case float_py g3 of None \<Rightarrow> None | Some bat \<Rightarrow>
           case those (map float_py (split_comma g4)) of None \<Rightarrow> None | Some gyr \<Rightarrow>
           case float_py g5 of None \<Rightarrow> None | Some wnd \<Rightarrow>
           case float_py g6 of None \<Rightarrow> None | Some dst \<Rightarrow>
             Some \<lparr>xpos = x, ypos = y, battery = bat, gyro = gyr, wind = wnd, dust = dst,
                   sensor = g7\<rparr>)
      | _ \<Rightarrow> None)"

section \<open>Crash evaluator\<close>

text \<open>
  \<^verbatim>\<open>check_crash\<close> tests five conditions and only then unpacks the gyro list into
  three variables, which raises \<^verbatim>\<open>ValueError\<close> for a list of another length. The
  three squares are computed from left to right, and each may raise
  \<^verbatim>\<open>OverflowError\<close>.
\<close>

definition check_crash :: "telemetry \<Rightarrow> error + bool" where
  "check_crash parsed =
     (if fl_le (battery parsed) (Fin 0) then Inr True
      else if sensor parsed = ''RED'' \<and> fl_lt (Fin 3) (ypos parsed) then Inr True
      else if sensor parsed = ''YELLOW'' \<and> fl_lt (Fin 1000) (ypos parsed) then Inr True
      else if fl_lt (ypos parsed) (Fin 0) then Inr True
      else if fl_lt (Fin 100000) (fl_abs (xpos parsed)) then Inr True
      else (case gyro parsed of
              [gx, gy, gz] \<Rightarrow>
                (case fl_pow2 gx of Inl e \<Rightarrow> Inl e | Inr sx \<Rightarrow>
                 case fl_pow2 gy of Inl e \<Rightarrow> Inl e | Inr sy \<Rightarrow>
                 case fl_pow2 gz of Inl e \<Rightarrow> Inl e | Inr sz \<Rightarrow>
                   (let tilt_magnitude = fl_sqrt (fl_add (fl_add sx sy) sz)
                    in if fl_lt (Fin 1) tilt_magnitude then Inr True else Inr False))
            | _ \<Rightarrow> Inl ValueError))"

section \<open>Control policy\<close>

text \<open>
  The loop of \<^verbatim>\<open>drone_control\<close> keeps two variables between messages,
  \<^verbatim>\<open>current_movement\<close> (the string \<^verbatim>\<open>'fwd'\<close> or \<^verbatim>\<open>'rev'\<close>) and \<^verbatim>\<open>speed\<close>.
\<close>

datatype movement = Fwd | Rev

record controller =
  current_movement :: movement
  speed :: int

text \<open>The command dictionary with its keys \<^verbatim>\<open>'speed'\<close>, \<^verbatim>\<open>'altitude'\<close>, \<^verbatim>\<open>'movement'\<close>.\<close>

record command =
  cmd_speed :: int
  cmd_altitude :: int
  cmd_movement :: movement

definition target_of :: "string \<Rightarrow> fl" where
  "target_of sensor_status =
     (if sensor_status = ''RED'' then Fin 2
      else if sensor_status = ''YELLOW'' then Fin 999 else Fin 2000)"

text \<open>
  \<^verbatim>\<open>max(10, min(100, abs(delta_y) // 2))\<close>, a whole number. For an infinite
  \<^verbatim>\<open>delta_y\<close> the quotient is a NaN, \<^verbatim>\<open>min\<close> keeps 100 because the comparison
  with a NaN is false, and nothing is raised.
\<close>

definition max_delta_of :: "fl \<Rightarrow> int" where
  "max_delta_of delta_y =
     (case fl_abs delta_y of Fin a \<Rightarrow> max 10 (min 100 \<lfloor>a / 2\<rfloor>) | _ \<Rightarrow> 100)"

text \<open>
  The altitude command (source lines 94 to 97). \<^verbatim>\<open>int(delta_y)\<close> raises for an
  infinite \<^verbatim>\<open>delta_y\<close>, before the dead-band test is reached.
\<close>

definition altitude_of :: "fl \<Rightarrow> error + int" where
  "altitude_of delta_y =
     (let max_delta = max_delta_of delta_y
      in case int_py delta_y of
           Inl e \<Rightarrow> Inl e
         | Inr t \<Rightarrow>
             (let altitude_cmd = max (- max_delta) (min max_delta t)
              in Inr (if fl_lt (fl_abs delta_y) (Fin 10) then 0 else altitude_cmd)))"

text \<open>
  One pass of the loop body after the crash check (source lines 78 to 120): the
  updated variables and the command that is sent. Unpacking the gyro list raises
  \<^verbatim>\<open>ValueError\<close> unless it has three elements, and the altitude command may
  raise before the speed and the movement are touched.
\<close>

definition control_step :: "controller \<Rightarrow> telemetry \<Rightarrow> error + (controller \<times> command)" where
  "control_step st parsed =
     (case gyro parsed of
        [gx, gy, gz] \<Rightarrow>
          (let delta_y = fl_sub (target_of (sensor parsed)) (ypos parsed)
           in case altitude_of delta_y of
                Inl e \<Rightarrow> Inl e
              | Inr altitude_cmd \<Rightarrow>
                  (let st1 =
                         (if fl_lt (battery parsed) (Fin 20) then st\<lparr>speed := 1\<rparr>
                          else if fl_le (Fin (8 / 10)) (fl_abs gx) then
                            st\<lparr>speed := max 1 (speed st - 1),
                               current_movement :=
                                 (if current_movement st = Fwd then Rev else Fwd)\<rparr>
                          else if fl_lt (fl_abs gx) (Fin (5 / 10))
                                  \<and> fl_lt (Fin 20) (battery parsed) then
                            st\<lparr>speed := min 5 (speed st + 1)\<rparr>
                          else st);
                       st2 =
                         (if fl_lt (Fin 90000) (xpos parsed) then st1\<lparr>current_movement := Rev\<rparr>
                          else if fl_lt (xpos parsed) (Fin (- 90000)) then
                            st1\<lparr>current_movement := Fwd\<rparr>
                          else st1)
                   in Inr (st2, \<lparr>cmd_speed = speed st2, cmd_altitude = altitude_cmd,
                                  cmd_movement = current_movement st2\<rparr>)))
      | _ \<Rightarrow> Inl ValueError)"

text \<open>
  The message loop over the envelopes received, each a pair of its \<^verbatim>\<open>status\<close> and
  \<^verbatim>\<open>telemetry\<close> entries; the end of the list is the closed connection. The result
  is the list of commands sent and the variables when the loop ends. An exception
  that leaves \<^verbatim>\<open>check_crash\<close> or the loop body ends the session in the outer
  handler.
\<close>

fun drone_loop :: "controller \<Rightarrow> (string \<times> string) list \<Rightarrow> command list \<times> controller" where
  "drone_loop st [] = ([], st)"
| "drone_loop st ((status, telemetry_str) # rest) =
     (if status = ''crashed'' then ([], st)
      else case parse_telemetry telemetry_str of
             None \<Rightarrow> drone_loop st rest
           | Some parsed \<Rightarrow>
               (case check_crash parsed of
                  Inl e \<Rightarrow> ([], st)
                | Inr True \<Rightarrow> ([], st)
                | Inr False \<Rightarrow>
                    (case control_step st parsed of
                       Inl e \<Rightarrow> ([], st)
                     | Inr (st', cmd) \<Rightarrow>
                         (case drone_loop st' rest of (cmds, fin) \<Rightarrow> (cmd # cmds, fin)))))"

definition initial_state :: controller where
  "initial_state = \<lparr>current_movement = Fwd, speed = 3\<rparr>"

definition drone_control :: "(string \<times> string) list \<Rightarrow> command list \<times> controller" where
  "drone_control msgs = drone_loop initial_state msgs"

section \<open>The words of the specification\<close>

text \<open>
  The specification writes the altitude command with \<open>clamp\<close> and \<open>truncate\<close>;
  these two definitions follow its words, to be compared with \<open>max\<close>, \<open>min\<close>
  and \<open>int_py\<close> of the code.
\<close>

definition spec_clamp :: "int \<Rightarrow> int \<Rightarrow> int \<Rightarrow> int" where
  "spec_clamp v lower upper = (if v < lower then lower else if upper < v then upper else v)"

definition spec_truncate :: "real \<Rightarrow> int" where
  "spec_truncate v = (if v < 0 then - \<lfloor>- v\<rfloor> else \<lfloor>v\<rfloor>)"

text \<open>
  The grammar of the specification: a numeric field is an optional \<^verbatim>\<open>-\<close>, digits
  and an optional fraction, here a triple of the sign, the integer digits and the
  fraction digits; a telemetry string is the fields in their fixed order.
\<close>

type_synonym number = "bool \<times> string \<times> string"

definition number_ok :: "number \<Rightarrow> bool" where
  "number_ok n =
     (case n of (neg, ip, fp) \<Rightarrow> ip \<noteq> [] \<and> list_all is_digit ip \<and> list_all is_digit fp)"

definition number_text :: "number \<Rightarrow> string" where
  "number_text n =
     (case n of (neg, ip, fp) \<Rightarrow>
        (if neg then ''-'' else []) @ ip @ (if fp = [] then [] else CHR ''.'' # fp))"

definition number_value :: "number \<Rightarrow> real" where
  "number_value n =
     (case n of (neg, ip, fp) \<Rightarrow>
        (if neg then - 1 else 1) * (real (digits_val ip) + real (digits_val fp) / 10 ^ length fp))"

definition encode_telemetry ::
  "number \<Rightarrow> number \<Rightarrow> number \<Rightarrow> number \<Rightarrow> number \<Rightarrow> number \<Rightarrow> number \<Rightarrow> number \<Rightarrow> string \<Rightarrow> string"
where
  "encode_telemetry nx ny nb n1 n2 n3 nw nd tok =
     ''X-'' @ number_text nx @ ''-Y-'' @ number_text ny @ ''-BAT-'' @ number_text nb @
     ''-GYR-['' @ number_text n1 @ '','' @ number_text n2 @ '','' @ number_text n3 @
     '']-WIND-'' @ number_text nw @ ''-DUST-'' @ number_text nd @ ''-SENS-'' @ tok"


section \<open>Properties of the decoder\<close>

lemma is_digit_simps [simp]:
  "\<not> is_digit CHR ''.''" "\<not> is_digit CHR ''-''" "\<not> is_digit CHR '',''"
  by (simp_all add: is_digit_def)

lemma float_py_unsigned:
  assumes "ip \<noteq> []" and "list_all is_digit ip" and "list_all is_digit fp"
  shows "float_py (ip @ (if fp = [] then [] else CHR ''.'' # fp)) =
           Some (fl_of_real (real (digits_val ip) + real (digits_val fp) / 10 ^ length fp))"
proof -
  let ?s = "ip @ (if fp = [] then [] else CHR ''.'' # fp)"
  from assms(1,2) have hd: "hd ?s \<noteq> CHR ''-''"
    by (cases ip) auto
  have all: "\<And>c. c \<in> set ip \<Longrightarrow> is_digit c"
    using assms(2) by (simp add: list_all_iff)
  have tw: "takeWhile is_digit ?s = ip"
    using all by (simp add: takeWhile_append2)
  have dw: "dropWhile is_digit ?s = (if fp = [] then [] else CHR ''.'' # fp)"
    using all by (simp add: dropWhile_append2)
  show ?thesis
    using assms hd by (simp add: float_py_def Let_def tw dw list_all_iff del: hd_append2)
qed

lemma float_py_signed:
  assumes "ip \<noteq> []" and "list_all is_digit ip" and "list_all is_digit fp"
  shows "float_py (CHR ''-'' # ip @ (if fp = [] then [] else CHR ''.'' # fp)) =
           Some (fl_of_real (- (real (digits_val ip) + real (digits_val fp) / 10 ^ length fp)))"
proof -
  let ?s = "ip @ (if fp = [] then [] else CHR ''.'' # fp)"
  have all: "\<And>c. c \<in> set ip \<Longrightarrow> is_digit c"
    using assms(2) by (simp add: list_all_iff)
  have tw: "takeWhile is_digit ?s = ip"
    using all by (simp add: takeWhile_append2)
  have dw: "dropWhile is_digit ?s = (if fp = [] then [] else CHR ''.'' # fp)"
    using all by (simp add: dropWhile_append2)
  show ?thesis
    using assms by (simp add: float_py_def Let_def tw dw list_all_iff)
qed

lemma float_py_number:
  assumes "number_ok n"
  shows "float_py (number_text n) = Some (fl_of_real (number_value n))"
proof -
  obtain neg ip fp where n: "n = (neg, ip, fp)" by (cases n)
  with assms have ok: "ip \<noteq> []" "list_all is_digit ip" "list_all is_digit fp"
    by (simp_all add: number_ok_def)
  show ?thesis
  proof (cases neg)
    case True
    with float_py_signed [OF ok] n show ?thesis
      by (simp add: number_text_def number_value_def)
  next
    case False
    with float_py_unsigned [OF ok] n show ?thesis
      by (simp add: number_text_def number_value_def)
  qed
qed

lemma number_text_signed:
  assumes "number_ok n" and "c \<in> set (number_text n)"
  shows "cls_signed c"
  using assms
  by (auto simp: number_ok_def number_text_def cls_signed_def list_all_iff split: prod.splits if_splits)

lemma number_text_unsigned:
  assumes "number_ok n" and "\<not> fst n" and "c \<in> set (number_text n)"
  shows "cls_unsigned c"
  using assms
  by (auto simp: number_ok_def number_text_def cls_unsigned_def list_all_iff split: prod.splits if_splits)

lemma number_text_nonempty: "number_ok n \<Longrightarrow> number_text n \<noteq> []"
  by (auto simp: number_ok_def number_text_def split: prod.splits)

lemma first_some_top:
  assumes "0 < m"
  shows "first_some f (rev [Suc 0..<Suc m]) =
           (case f m of Some r \<Rightarrow> Some r | None \<Rightarrow> first_some f (rev [Suc 0..<m]))"
  using assms by simp

lemma re_match_grp_exact:
  assumes "\<And>c. c \<in> set g \<Longrightarrow> cls c" and "g \<noteq> []" and "takeWhile cls u = []"
    and "re_match rest u = Some gs"
  shows "re_match (Grp cls # rest) (g @ u) = Some (g # gs)"
proof -
  have tw: "takeWhile cls (g @ u) = g"
    using assms(1,3) by (simp add: takeWhile_append2)
  have pos: "0 < length g" using assms(2) by simp
  show ?thesis
    by (simp only: re_match.simps One_nat_def tw first_some_top [OF pos]) (simp add: assms(4))
qed

lemma re_match_grp_back:
  assumes "\<And>c. c \<in> set g \<Longrightarrow> cls c" and "g \<noteq> []" and "cls d" and "takeWhile cls u = []"
    and "re_match rest u = None" and "re_match rest (d # u) = Some gs"
  shows "re_match (Grp cls # rest) (g @ d # u) = Some (g # gs)"
proof -
  have tw: "takeWhile cls (g @ d # u) = g @ [d]"
    using assms(1,3,4) by (simp add: takeWhile_append2)
  have len: "length (g @ [d]) = Suc (length g)" by simp
  have pos: "0 < length g" using assms(2) by simp
  have pos': "0 < Suc (length g)" by simp
  show ?thesis
    by (simp only: re_match.simps One_nat_def tw len first_some_top [OF pos'] first_some_top [OF pos])
       (simp add: assms(5,6))
qed

lemma split_comma_nonempty: "split_comma s \<noteq> []"
  by (induction s) auto

lemma split_comma_piece:
  assumes "CHR '','' \<notin> set g"
  shows "split_comma (g @ CHR '','' # r) = g # split_comma r"
  using assms by (induction g) auto

lemma split_comma_last:
  assumes "CHR '','' \<notin> set g"
  shows "split_comma g = [g]"
  using assms by (induction g) auto

lemma cls_signed_gyro: "cls_signed c \<Longrightarrow> cls_gyro c"
  by (auto simp: cls_signed_def cls_gyro_def)

lemma number_text_no_comma:
  assumes "number_ok n"
  shows "CHR '','' \<notin> set (number_text n)"
proof
  assume "CHR '','' \<in> set (number_text n)"
  from number_text_signed [OF assms this] show False
    by (simp add: cls_signed_def)
qed

lemma split_comma_three:
  assumes "number_ok n1" and "number_ok n2" and "number_ok n3"
  shows "split_comma (number_text n1 @ '','' @ number_text n2 @ '','' @ number_text n3) =
           [number_text n1, number_text n2, number_text n3]"
  using split_comma_piece [OF number_text_no_comma [OF assms(1)]]
    split_comma_piece [OF number_text_no_comma [OF assms(2)]]
    split_comma_last [OF number_text_no_comma [OF assms(3)]]
  by simp

lemma re_match_well_formed:
  assumes x: "number_ok nx" and y: "number_ok ny" and b: "number_ok nb"
    and g1: "number_ok n1" and g2: "number_ok n2" and g3: "number_ok n3"
    and w: "number_ok nw" and d: "number_ok nd"
    and ub: "\<not> fst nb" and uw: "\<not> fst nw" and ud: "\<not> fst nd"
    and tok: "tok \<noteq> []" "list_all is_word tok"
  shows "re_match pattern
           (''X-'' @ number_text nx @ ''-Y-'' @ number_text ny @ ''-BAT-'' @ number_text nb @
            ''-GYR-['' @ number_text n1 @ '','' @ number_text n2 @ '','' @ number_text n3 @
            '']-WIND-'' @ number_text nw @ ''-DUST-'' @ number_text nd @ ''-SENS-'' @ tok) =
         Some [number_text nx, number_text ny, number_text nb,
               number_text n1 @ '','' @ number_text n2 @ '','' @ number_text n3,
               number_text nw, number_text nd, tok]"
proof -
  define gy where "gy = number_text n1 @ '','' @ number_text n2 @ '','' @ number_text n3"
  have gy_cls: "cls_gyro c" if "c \<in> set gy" for c
    using that number_text_signed [OF g1] number_text_signed [OF g2] number_text_signed [OF g3]
    by (auto simp: gy_def intro: cls_signed_gyro) (simp add: cls_gyro_def)
  have gy_ne: "gy \<noteq> []" by (simp add: gy_def)
  have "re_match [Grp is_word] (tok @ []) = Some [tok]"
  proof (rule re_match_grp_exact)
    show "is_word c" if "c \<in> set tok" for c
      using that tok(2) by (simp add: list_all_iff)
    show "tok \<noteq> []" by fact
    show "takeWhile is_word [] = []" by simp
    show "re_match [] [] = Some []" by simp
  qed
  then have m7: "re_match [Grp is_word] tok = Some [tok]"
    by (simp only: append_Nil2)
  define s6 where "s6 = ''-SENS-'' @ tok"
  have m6: "re_match [Lit ''-SENS-'', Grp is_word] s6 = Some [tok]"
    by (simp add: s6_def m7 del: re_match.simps(3))
  have t6: "takeWhile cls_unsigned s6 = []"
    by (simp add: s6_def cls_unsigned_def)
  have m5g: "re_match [Grp cls_unsigned, Lit ''-SENS-'', Grp is_word] (number_text nd @ s6) =
               Some [number_text nd, tok]"
    by (rule re_match_grp_exact [OF number_text_unsigned [OF d ud] number_text_nonempty [OF d] t6 m6])
  define s5 where "s5 = ''-DUST-'' @ number_text nd @ s6"
  have m5: "re_match [Lit ''-DUST-'', Grp cls_unsigned, Lit ''-SENS-'', Grp is_word] s5 =
              Some [number_text nd, tok]"
    by (simp add: s5_def m5g del: re_match.simps(3))
  have t5: "takeWhile cls_unsigned s5 = []"
    by (simp add: s5_def cls_unsigned_def)
  have m4g: "re_match [Grp cls_unsigned, Lit ''-DUST-'', Grp cls_unsigned, Lit ''-SENS-'',
                       Grp is_word] (number_text nw @ s5) =
               Some [number_text nw, number_text nd, tok]"
    by (rule re_match_grp_exact [OF number_text_unsigned [OF w uw] number_text_nonempty [OF w] t5 m5])
  define s4 where "s4 = '']-WIND-'' @ number_text nw @ s5"
  have m4: "re_match [Lit '']-WIND-'', Grp cls_unsigned, Lit ''-DUST-'', Grp cls_unsigned,
                      Lit ''-SENS-'', Grp is_word] s4 =
              Some [number_text nw, number_text nd, tok]"
    by (simp add: s4_def m4g del: re_match.simps(3))
  have t4: "takeWhile cls_gyro s4 = []"
    by (simp add: s4_def cls_gyro_def is_digit_def)
  have m3g: "re_match [Grp cls_gyro, Lit '']-WIND-'', Grp cls_unsigned, Lit ''-DUST-'',
                       Grp cls_unsigned, Lit ''-SENS-'', Grp is_word] (gy @ s4) =
               Some [gy, number_text nw, number_text nd, tok]"
    by (rule re_match_grp_exact [OF gy_cls gy_ne t4 m4])
  define s3 where "s3 = ''-GYR-['' @ gy @ s4"
  have m3: "re_match [Lit ''-GYR-['', Grp cls_gyro, Lit '']-WIND-'', Grp cls_unsigned,
                      Lit ''-DUST-'', Grp cls_unsigned, Lit ''-SENS-'', Grp is_word] s3 =
              Some [gy, number_text nw, number_text nd, tok]"
    by (simp add: s3_def m3g del: re_match.simps(3))
  have t3: "takeWhile cls_unsigned s3 = []"
    by (simp add: s3_def cls_unsigned_def)
  have m2g: "re_match [Grp cls_unsigned, Lit ''-GYR-['', Grp cls_gyro, Lit '']-WIND-'',
                       Grp cls_unsigned, Lit ''-DUST-'', Grp cls_unsigned, Lit ''-SENS-'',
                       Grp is_word] (number_text nb @ s3) =
               Some [number_text nb, gy, number_text nw, number_text nd, tok]"
    by (rule re_match_grp_exact [OF number_text_unsigned [OF b ub] number_text_nonempty [OF b] t3 m3])
  define s2 where "s2 = ''BAT-'' @ number_text nb @ s3"
  define r2 where "r2 = [Lit ''-BAT-'', Grp cls_unsigned, Lit ''-GYR-['', Grp cls_gyro,
                         Lit '']-WIND-'', Grp cls_unsigned, Lit ''-DUST-'', Grp cls_unsigned,
                         Lit ''-SENS-'', Grp is_word]"
  have dash: "cls_signed CHR ''-''" by (simp add: cls_signed_def)
  have t2: "takeWhile cls_signed s2 = []"
    by (simp add: s2_def cls_signed_def is_digit_def)
  have n2: "re_match r2 s2 = None"
    by (simp add: r2_def s2_def del: re_match.simps(3))
  have m2: "re_match r2 (CHR ''-'' # s2) =
              Some [number_text nb, gy, number_text nw, number_text nd, tok]"
    by (simp add: r2_def s2_def m2g del: re_match.simps(3))
  have m1g: "re_match (Grp cls_signed # r2) (number_text ny @ CHR ''-'' # s2) =
               Some [number_text ny, number_text nb, gy, number_text nw, number_text nd, tok]"
    by (rule re_match_grp_back [OF number_text_signed [OF y] number_text_nonempty [OF y] dash t2 n2 m2])
  define s1 where "s1 = ''Y-'' @ number_text ny @ CHR ''-'' # s2"
  define r1 where "r1 = Lit ''-Y-'' # Grp cls_signed # r2"
  have t1: "takeWhile cls_signed s1 = []"
    by (simp add: s1_def cls_signed_def is_digit_def)
  have n1: "re_match r1 s1 = None"
    by (simp add: r1_def s1_def del: re_match.simps(3))
  have m1: "re_match r1 (CHR ''-'' # s1) =
              Some [number_text ny, number_text nb, gy, number_text nw, number_text nd, tok]"
    by (simp add: r1_def s1_def m1g del: re_match.simps(3))
  have m0g: "re_match (Grp cls_signed # r1) (number_text nx @ CHR ''-'' # s1) =
               Some [number_text nx, number_text ny, number_text nb, gy, number_text nw,
                     number_text nd, tok]"
    by (rule re_match_grp_back [OF number_text_signed [OF x] number_text_nonempty [OF x] dash t1 n1 m1])
  have pat: "pattern = Lit ''X-'' # Grp cls_signed # r1"
    by (simp add: pattern_def r1_def r2_def)
  have str: "''X-'' @ number_text nx @ ''-Y-'' @ number_text ny @ ''-BAT-'' @ number_text nb @
             ''-GYR-['' @ number_text n1 @ '','' @ number_text n2 @ '','' @ number_text n3 @
             '']-WIND-'' @ number_text nw @ ''-DUST-'' @ number_text nd @ ''-SENS-'' @ tok =
             ''X-'' @ (number_text nx @ CHR ''-'' # s1)"
    by (simp add: s1_def s2_def s3_def s4_def s5_def s6_def gy_def)
  have "re_match pattern (''X-'' @ (number_text nx @ CHR ''-'' # s1)) =
          Some [number_text nx, number_text ny, number_text nb, gy, number_text nw,
                number_text nd, tok]"
    unfolding pat by (simp add: m0g del: re_match.simps(3))
  then show ?thesis
    unfolding str gy_def .
qed




lemma parse_telemetry_encode:
  assumes "number_ok nx" and "number_ok ny" and "number_ok nb"
    and "number_ok n1" and "number_ok n2" and "number_ok n3"
    and "number_ok nw" and "number_ok nd"
    and "\<not> fst nb" and "\<not> fst nw" and "\<not> fst nd"
    and "tok \<noteq> []" and "list_all is_word tok"
  shows "parse_telemetry (encode_telemetry nx ny nb n1 n2 n3 nw nd tok) =
           Some \<lparr>xpos = fl_of_real (number_value nx), ypos = fl_of_real (number_value ny),
                 battery = fl_of_real (number_value nb),
                 gyro = [fl_of_real (number_value n1), fl_of_real (number_value n2),
                         fl_of_real (number_value n3)],
                 wind = fl_of_real (number_value nw), dust = fl_of_real (number_value nd),
                 sensor = tok\<rparr>"
  unfolding parse_telemetry_def encode_telemetry_def
  by (simp only: re_match_well_formed [OF assms] split_comma_three [OF assms(4,5,6)]
        float_py_number [OF assms(1)] float_py_number [OF assms(2)] float_py_number [OF assms(3)]
        float_py_number [OF assms(4)] float_py_number [OF assms(5)] float_py_number [OF assms(6)]
        float_py_number [OF assms(7)] float_py_number [OF assms(8)]
        list.case option.case list.map those.simps map_option_case)



lemma foldl_digit_zeros:
  "foldl (\<lambda>a c. 10 * a + (of_char c - 48)) (a :: nat) (replicate n CHR ''0'') = a * 10 ^ n"
  by (induction n arbitrary: a) simp_all

lemma digits_val_one_zeros: "digits_val (CHR ''1'' # replicate n CHR ''0'') = 10 ^ n"
  by (simp add: digits_val_def foldl_digit_zeros)

lemma number_ok_one_zeros: "number_ok (False, CHR ''1'' # replicate n CHR ''0'', [])"
  by (simp add: number_ok_def is_digit_def list_all_iff)

lemma number_value_one_zeros:
  "number_value (False, CHR ''1'' # replicate n CHR ''0'', []) = 10 ^ n"
  by (simp add: number_value_def digits_val_one_zeros) (simp add: digits_val_def)

lemma number_small [simp]:
  "number_ok (False, ''0'', [])" "number_ok (False, ''50'', [])" "number_ok (False, ''15'', [])"
  "number_ok (False, ''95000'', [])"
  "number_value (False, ''0'', []) = 0" "number_value (False, ''50'', []) = 50"
  "number_value (False, ''15'', []) = 15" "number_value (False, ''95000'', []) = 95000"
  by (simp_all add: number_ok_def number_value_def is_digit_def digits_val_def)

lemma word_green [simp]: "list_all is_word ''GREEN''"
  by (simp add: is_word_def)

section \<open>Properties of one control step and of the loop\<close>

lemma max_min_clamp:
  assumes "lower \<le> upper"
  shows "max lower (min upper v) = spec_clamp v lower upper"
  using assms by (auto simp: spec_clamp_def max_def min_def)

lemma clamp_lower: "lower \<le> upper \<Longrightarrow> lower \<le> spec_clamp v lower upper"
  by (simp add: spec_clamp_def)

lemma int_py_truncate: "int_py (Fin v) = Inr (spec_truncate v)"
  by (simp add: spec_truncate_def ceiling_def)

lemma altitude_of_spec:
  "altitude_of (Fin d) =
     Inr (if \<bar>d\<bar> < 10 then 0
          else spec_clamp (spec_truncate d)
                 (- spec_clamp \<lfloor>\<bar>d\<bar> / 2\<rfloor> 10 100) (spec_clamp \<lfloor>\<bar>d\<bar> / 2\<rfloor> 10 100))"
proof -
  define m where "m = spec_clamp \<lfloor>\<bar>d\<bar> / 2\<rfloor> 10 100"
  have m: "max 10 (min 100 \<lfloor>\<bar>d\<bar> / 2\<rfloor>) = m"
    unfolding m_def by (rule max_min_clamp) simp
  have "10 \<le> m"
    unfolding m_def by (rule clamp_lower) simp
  then have "- m \<le> m" by simp
  then have "max (- m) (min m (spec_truncate d)) = spec_clamp (spec_truncate d) (- m) m"
    by (rule max_min_clamp)
  then show ?thesis
    by (simp add: altitude_of_def max_delta_of_def Let_def m int_py_truncate
          del: int_py.simps flip: m_def)
qed

lemma control_step_total:
  assumes "gyro p = [gx, gy, gz]" and "fl_finite (ypos p)" and "\<not> fl_lt (ypos p) (Fin 0)"
  shows "\<exists>st' cmd. control_step st p = Inr (st', cmd)"
proof -
  from assms(2,3) obtain v where v: "ypos p = Fin v" "0 \<le> v" "\<not> overflows v"
    by (cases "ypos p") (simp_all add: fl_finite_def)
  have "\<not> overflows (t - v)" if "t = 2 \<or> t = 999 \<or> t = 2000" for t
    using that v(2,3) by (auto simp: overflows_def)
  from this [of 2] this [of 999] this [of 2000]
  have "\<exists>d. fl_sub (target_of (sensor p)) (ypos p) = Fin d"
    by (auto simp: fl_sub_def target_of_def fl_of_real_def v(1))
  then obtain d where "fl_sub (target_of (sensor p)) (ypos p) = Fin d" ..
  then show ?thesis
    using assms(1) by (simp add: control_step_def Let_def altitude_of_spec)
qed

lemma control_step_speed:
  assumes "control_step st p = Inr (st', cmd)" and "gyro p = gx # gs"
  shows "speed st' =
           (if fl_lt (battery p) (Fin 20) then 1
            else if fl_le (Fin (8 / 10)) (fl_abs gx) then max 1 (speed st - 1)
            else if fl_lt (fl_abs gx) (Fin (5 / 10)) \<and> fl_lt (Fin 20) (battery p)
              then min 5 (speed st + 1)
            else speed st)"
    and "cmd_speed cmd = speed st'"
  using assms
  by (auto simp: control_step_def Let_def split: list.splits sum.splits)

lemma control_step_movement:
  assumes "control_step st p = Inr (st', cmd)" and "gyro p = gx # gs"
  shows "current_movement st' =
           (if fl_lt (Fin 90000) (xpos p) then Rev
            else if fl_lt (xpos p) (Fin (- 90000)) then Fwd
            else if fl_lt (battery p) (Fin 20) then current_movement st
            else if fl_le (Fin (8 / 10)) (fl_abs gx)
              then (if current_movement st = Fwd then Rev else Fwd)
            else current_movement st)"
    and "cmd_movement cmd = current_movement st'"
  using assms
  by (auto simp: control_step_def Let_def split: list.splits sum.splits)

lemma tilt_small_not_large:
  assumes "fl_lt a (Fin (5 / 10))"
  shows "\<not> fl_le (Fin (8 / 10)) a"
  using assms by (cases a) (simp_all add: fl_le_def)

lemma step_speed_inv:
  assumes "control_step st p = Inr (st', cmd)" and "1 \<le> speed st" and "speed st \<le> 5"
  shows "1 \<le> speed st' \<and> speed st' \<le> 5 \<and> cmd_speed cmd = speed st'"
  using assms
  by (auto simp: control_step_def Let_def split: list.splits sum.splits if_splits)

lemma loop_speed_inv:
  assumes "1 \<le> speed st" and "speed st \<le> 5"
  shows "(\<forall>c \<in> set (fst (drone_loop st msgs)). 1 \<le> cmd_speed c \<and> cmd_speed c \<le> 5)
     \<and> 1 \<le> speed (snd (drone_loop st msgs)) \<and> speed (snd (drone_loop st msgs)) \<le> 5"
  using assms
proof (induction msgs arbitrary: st)
  case Nil
  then show ?case by simp
next
  case (Cons m rest)
  obtain status tel where m: "m = (status, tel)" by (cases m)
  show ?case
  proof (cases "status = ''crashed''")
    case True
    with Cons.prems m show ?thesis by simp
  next
    case nc: False
    show ?thesis
    proof (cases "parse_telemetry tel")
      case None
      with nc m Cons show ?thesis by simp
    next
      case (Some parsed)
      show ?thesis
      proof (cases "check_crash parsed")
        case (Inl e)
        with Some nc m Cons.prems show ?thesis by simp
      next
        case (Inr b)
        show ?thesis
        proof (cases b)
          case True
          with Inr Some nc m Cons.prems show ?thesis by simp
        next
          case False
          show ?thesis
          proof (cases "control_step st parsed")
            case (Inl e)
            with False Inr Some nc m Cons.prems show ?thesis by simp
          next
            case r: (Inr pr)
            obtain st' cmd where pr: "pr = (st', cmd)" by (cases pr)
            from step_speed_inv [OF r [unfolded pr] Cons.prems]
            have inv: "1 \<le> speed st'" "speed st' \<le> 5" "cmd_speed cmd = speed st'" by simp_all
            from Cons.IH [OF inv(1,2)] inv r pr False Inr Some nc m
            show ?thesis by (auto split: prod.splits)
          qed
        qed
      qed
    qed
  qed
qed

lemmas decoder_defs =
  parse_telemetry_def pattern_def cls_signed_def cls_unsigned_def cls_gyro_def is_digit_def
  is_word_def float_py_def digits_val_def fl_of_real_def overflows_def

lemmas policy_defs =
  check_crash_def control_step_def target_of_def altitude_of_def max_delta_of_def fl_sub_def
  fl_le_def fl_of_real_def overflows_def

text \<open>
  What one step does for a record with three gyro components and a finite altitude
  that is not negative: the altitude command of the specification, the low-battery
  override and the lateral override.
\<close>

lemma altitude_command_finite:
  assumes "gyro p = [gx, gy, gz]" and "ypos p = Fin v" and "0 \<le> v" and "\<not> overflows v"
  shows "\<exists>st' cmd. control_step st p = Inr (st', cmd) \<and>
           cmd_altitude cmd =
             (let target = (if sensor p = ''RED'' then 2
                            else if sensor p = ''YELLOW'' then 999 else 2000);
                  delta_y = target - v;
                  max_delta = spec_clamp \<lfloor>\<bar>delta_y\<bar> / 2\<rfloor> 10 100
              in if \<bar>delta_y\<bar> < 10 then 0
                 else spec_clamp (spec_truncate delta_y) (- max_delta) max_delta)"
proof -
  have "\<not> overflows (t - v)" if "t = 2 \<or> t = 999 \<or> t = 2000" for t
    using that assms(3,4) by (auto simp: overflows_def)
  from this [of 2] this [of 999] this [of 2000]
  have "fl_sub (target_of (sensor p)) (ypos p) =
          Fin ((if sensor p = ''RED'' then 2
                else if sensor p = ''YELLOW'' then 999 else 2000) - v)"
    by (auto simp: fl_sub_def target_of_def fl_of_real_def assms(2))
  then show ?thesis
    using assms(1) by (simp add: control_step_def Let_def altitude_of_spec)
qed

lemma low_battery_override_finite:
  assumes "gyro p = [gx, gy, gz]" and "fl_finite (ypos p)" and "\<not> fl_lt (ypos p) (Fin 0)"
    and "fl_lt (battery p) (Fin 20)"
  shows "\<exists>st' cmd. control_step st p = Inr (st', cmd) \<and>
           speed st' = 1 \<and> cmd_speed cmd = 1 \<and>
           current_movement st' =
             (if fl_lt (Fin 90000) (xpos p) then Rev
              else if fl_lt (xpos p) (Fin (- 90000)) then Fwd else current_movement st) \<and>
           cmd_movement cmd = current_movement st'"
proof -
  from control_step_total [OF assms(1,2,3)] obtain st' cmd
    where step: "control_step st p = Inr (st', cmd)" by blast
  from control_step_speed [OF step assms(1)] control_step_movement [OF step assms(1)] assms(4)
  have "speed st' = 1" and "cmd_speed cmd = 1"
    and "current_movement st' =
           (if fl_lt (Fin 90000) (xpos p) then Rev
            else if fl_lt (xpos p) (Fin (- 90000)) then Fwd else current_movement st)"
    and "cmd_movement cmd = current_movement st'"
    by simp_all
  with step show ?thesis by blast
qed

lemma lateral_override_finite:
  assumes "gyro p = [gx, gy, gz]" and "fl_finite (ypos p)" and "\<not> fl_lt (ypos p) (Fin 0)"
  shows "\<exists>st' cmd. control_step st p = Inr (st', cmd) \<and>
           cmd_movement cmd = current_movement st' \<and>
           (fl_lt (Fin 90000) (xpos p) \<longrightarrow> current_movement st' = Rev) \<and>
           (fl_lt (xpos p) (Fin (- 90000)) \<longrightarrow> current_movement st' = Fwd)"
proof -
  from control_step_total [OF assms] obtain st' cmd
    where step: "control_step st p = Inr (st', cmd)" by blast
  have "\<not> (fl_lt (Fin 90000) (xpos p) \<and> fl_lt (xpos p) (Fin (- 90000)))"
    by (cases "xpos p") simp_all
  with control_step_movement [OF step assms(1)]
  have "cmd_movement cmd = current_movement st'"
    and "fl_lt (Fin 90000) (xpos p) \<longrightarrow> current_movement st' = Rev"
    and "fl_lt (xpos p) (Fin (- 90000)) \<longrightarrow> current_movement st' = Fwd"
    by auto
  with step show ?thesis by blast
qed

section \<open>The claims\<close>

text \<open>
  C1. The claim: a gyro bracket with two or with four comma-separated floats makes the
  decoder return no record. The decoder converts whatever the split returns and
  never counts the pieces: at these two inputs it returns a record whose gyro list
  has two and four elements.
\<close>

theorem parse_telemetry_gyro_count_unchecked:
  "parse_telemetry ''X-1-Y-1-BAT-50-GYR-[0.1,0.2]-WIND-0-DUST-0-SENS-GREEN'' =
     Some \<lparr>xpos = Fin 1, ypos = Fin 1, battery = Fin 50, gyro = [Fin (1 / 10), Fin (1 / 5)],
           wind = Fin 0, dust = Fin 0, sensor = ''GREEN''\<rparr>
   \<and> parse_telemetry ''X-1-Y-1-BAT-50-GYR-[0.1,0.2,0.3,0.4]-WIND-0-DUST-0-SENS-GREEN'' =
     Some \<lparr>xpos = Fin 1, ypos = Fin 1, battery = Fin 50,
           gyro = [Fin (1 / 10), Fin (1 / 5), Fin (3 / 10), Fin (2 / 5)], wind = Fin 0,
           dust = Fin 0, sensor = ''GREEN''\<rparr>"
  by (simp add: decoder_defs)

text \<open>
  C2. The claim: the crash evaluator never fails on a record that the decoder
  produced. On the record decoded from a string with two gyro components the
  evaluator raises \<^verbatim>\<open>ValueError\<close> when it unpacks the gyro list.
\<close>

theorem check_crash_fails_on_decoded_record:
  "map_option check_crash
     (parse_telemetry ''X-1-Y-1-BAT-50-GYR-[0.1,0.2]-WIND-0-DUST-0-SENS-GREEN'') =
   Some (Inl ValueError)"
  by (simp add: decoder_defs check_crash_def fl_le_def)

text \<open>
  C3. The claim: for a record with exactly three gyro components the crash evaluator
  returns true exactly when one of six conditions holds, the last one a tilt
  magnitude above 1. The telemetry string whose first gyro component is a 1 followed
  by 200 zeros decodes to a record with three finite gyro components and a tilt far
  above 1; there the evaluator returns nothing: squaring the component raises
  \<^verbatim>\<open>OverflowError\<close>.
\<close>

theorem check_crash_overflow_on_large_gyro:
  "parse_telemetry
     (encode_telemetry (False, ''0'', []) (False, ''0'', []) (False, ''50'', [])
        (False, CHR ''1'' # replicate 200 CHR ''0'', []) (False, ''0'', []) (False, ''0'', [])
        (False, ''0'', []) (False, ''0'', []) ''GREEN'') =
     Some \<lparr>xpos = Fin 0, ypos = Fin 0, battery = Fin 50, gyro = [Fin (10 ^ 200), Fin 0, Fin 0],
           wind = Fin 0, dust = Fin 0, sensor = ''GREEN''\<rparr>
   \<and> check_crash
       \<lparr>xpos = Fin 0, ypos = Fin 0, battery = Fin 50, gyro = [Fin (10 ^ 200), Fin 0, Fin 0],
         wind = Fin 0, dust = Fin 0, sensor = ''GREEN''\<rparr> = Inl OverflowError"
proof -
  have "parse_telemetry
     (encode_telemetry (False, ''0'', []) (False, ''0'', []) (False, ''50'', [])
        (False, CHR ''1'' # replicate 200 CHR ''0'', []) (False, ''0'', []) (False, ''0'', [])
        (False, ''0'', []) (False, ''0'', []) ''GREEN'') =
     Some \<lparr>xpos = fl_of_real (number_value (False, ''0'', [])),
           ypos = fl_of_real (number_value (False, ''0'', [])),
           battery = fl_of_real (number_value (False, ''50'', [])),
           gyro = [fl_of_real (number_value (False, CHR ''1'' # replicate 200 CHR ''0'', [])),
                   fl_of_real (number_value (False, ''0'', [])),
                   fl_of_real (number_value (False, ''0'', []))],
           wind = fl_of_real (number_value (False, ''0'', [])),
           dust = fl_of_real (number_value (False, ''0'', [])), sensor = ''GREEN''\<rparr>"
    by (rule parse_telemetry_encode) (simp_all add: number_ok_one_zeros is_word_def)
  moreover have "fl_of_real (10 ^ 200) = Fin (10 ^ 200)" "fl_of_real 0 = Fin 0"
    "fl_of_real 50 = Fin 50"
    by (simp_all add: fl_of_real_def overflows_def)
  moreover have "check_crash
       \<lparr>xpos = Fin 0, ypos = Fin 0, battery = Fin 50, gyro = [Fin (10 ^ 200), Fin 0, Fin 0],
         wind = Fin 0, dust = Fin 0, sensor = ''GREEN''\<rparr> = Inl OverflowError"
    by (simp add: policy_defs)
  ultimately show ?thesis by (simp add: number_value_one_zeros)
qed

text \<open>
  C4. The claim: every record that is not crashed gets a command whose altitude
  follows the formula of the specification. The telemetry string whose altitude is
  a 1 followed by 309 zeros decodes to a record with an infinite altitude; the
  record is not crashed, and the policy returns no command: \<^verbatim>\<open>int(delta_y)\<close>
  raises \<^verbatim>\<open>OverflowError\<close>.
\<close>

theorem altitude_overflow_no_command:
  "parse_telemetry
     (encode_telemetry (False, ''0'', []) (False, CHR ''1'' # replicate 309 CHR ''0'', [])
        (False, ''50'', []) (False, ''0'', []) (False, ''0'', []) (False, ''0'', [])
        (False, ''0'', []) (False, ''0'', []) ''GREEN'') =
     Some \<lparr>xpos = Fin 0, ypos = PInf, battery = Fin 50, gyro = [Fin 0, Fin 0, Fin 0],
           wind = Fin 0, dust = Fin 0, sensor = ''GREEN''\<rparr>
   \<and> check_crash
       \<lparr>xpos = Fin 0, ypos = PInf, battery = Fin 50, gyro = [Fin 0, Fin 0, Fin 0],
         wind = Fin 0, dust = Fin 0, sensor = ''GREEN''\<rparr> = Inr False
   \<and> control_step initial_state
       \<lparr>xpos = Fin 0, ypos = PInf, battery = Fin 50, gyro = [Fin 0, Fin 0, Fin 0],
         wind = Fin 0, dust = Fin 0, sensor = ''GREEN''\<rparr> = Inl OverflowError"
proof -
  have "parse_telemetry
     (encode_telemetry (False, ''0'', []) (False, CHR ''1'' # replicate 309 CHR ''0'', [])
        (False, ''50'', []) (False, ''0'', []) (False, ''0'', []) (False, ''0'', [])
        (False, ''0'', []) (False, ''0'', []) ''GREEN'') =
     Some \<lparr>xpos = fl_of_real (number_value (False, ''0'', [])),
           ypos = fl_of_real (number_value (False, CHR ''1'' # replicate 309 CHR ''0'', [])),
           battery = fl_of_real (number_value (False, ''50'', [])),
           gyro = [fl_of_real (number_value (False, ''0'', [])),
                   fl_of_real (number_value (False, ''0'', [])),
                   fl_of_real (number_value (False, ''0'', []))],
           wind = fl_of_real (number_value (False, ''0'', [])),
           dust = fl_of_real (number_value (False, ''0'', [])), sensor = ''GREEN''\<rparr>"
    by (rule parse_telemetry_encode) (simp_all add: number_ok_one_zeros is_word_def)
  moreover have "fl_of_real (10 ^ 309) = PInf" "fl_of_real 0 = Fin 0" "fl_of_real 50 = Fin 50"
    by (simp_all add: fl_of_real_def overflows_def)
  moreover have "check_crash
       \<lparr>xpos = Fin 0, ypos = PInf, battery = Fin 50, gyro = [Fin 0, Fin 0, Fin 0],
         wind = Fin 0, dust = Fin 0, sensor = ''GREEN''\<rparr> = Inr False"
    by (simp add: policy_defs)
  moreover have "control_step initial_state
       \<lparr>xpos = Fin 0, ypos = PInf, battery = Fin 50, gyro = [Fin 0, Fin 0, Fin 0],
         wind = Fin 0, dust = Fin 0, sensor = ''GREEN''\<rparr> = Inl OverflowError"
    by (simp add: policy_defs)
  ultimately show ?thesis by (simp add: number_value_one_zeros)
qed

text \<open>
  C5. The end-to-end scenario: from the initial state and the record with
  \<open>x = 0\<close>, \<open>y = 0\<close>, battery 50, gyro (0.9, 0, 0) and sensor GREEN, the record is
  not crashed and the command is speed 2, altitude 100, movement reverse.
\<close>

theorem end_to_end_scenario:
  "initial_state = \<lparr>current_movement = Fwd, speed = 3\<rparr>
   \<and> check_crash \<lparr>xpos = Fin 0, ypos = Fin 0, battery = Fin 50,
                    gyro = [Fin (9 / 10), Fin 0, Fin 0], wind = Fin 0, dust = Fin 0,
                    sensor = ''GREEN''\<rparr> = Inr False
   \<and> control_step initial_state
        \<lparr>xpos = Fin 0, ypos = Fin 0, battery = Fin 50, gyro = [Fin (9 / 10), Fin 0, Fin 0],
          wind = Fin 0, dust = Fin 0, sensor = ''GREEN''\<rparr> =
      Inr (\<lparr>current_movement = Rev, speed = 2\<rparr>,
           \<lparr>cmd_speed = 2, cmd_altitude = 100, cmd_movement = Rev\<rparr>)"
  by (simp add: initial_state_def policy_defs)




text \<open>
  C7. The claim: with battery not below 20 and \<open>|gx| < 0.5\<close> the speed becomes
  \<open>min 5 (speed + 1)\<close>, battery exactly 20 included. The code guards the increase
  with \<open>battery > 20\<close>: at battery 20 the speed stays as it was.
\<close>

theorem speed_increase_at_battery_20_counterexample:
  "check_crash \<lparr>xpos = Fin 0, ypos = Fin 0, battery = Fin 20, gyro = [Fin 0, Fin 0, Fin 0],
                 wind = Fin 0, dust = Fin 0, sensor = ''GREEN''\<rparr> = Inr False
   \<and> \<not> fl_lt (Fin 20) (Fin 20)
   \<and> fl_lt (fl_abs (Fin 0)) (Fin (5 / 10))
   \<and> control_step \<lparr>current_movement = Fwd, speed = 3\<rparr>
        \<lparr>xpos = Fin 0, ypos = Fin 0, battery = Fin 20, gyro = [Fin 0, Fin 0, Fin 0],
          wind = Fin 0, dust = Fin 0, sensor = ''GREEN''\<rparr> =
      Inr (\<lparr>current_movement = Fwd, speed = 3\<rparr>,
           \<lparr>cmd_speed = 3, cmd_altitude = 100, cmd_movement = Fwd\<rparr>)
   \<and> (3 :: int) \<noteq> min 5 (3 + 1)"
  by (simp add: policy_defs)

text \<open>
  C7, as amended. A record that is not crashed has three gyro components and an
  altitude that is not negative. For every such record with a finite altitude,
  \<open>|gx| < 0.5\<close> and a battery not below 20: when the battery is above 20 the speed
  becomes \<open>min 5 (speed + 1)\<close>, in the state and in the command; otherwise, at
  battery 20, the speed is unchanged.
\<close>

theorem speed_increase_above_20:
  assumes "gyro p = [gx, gy, gz]"
    and "fl_finite (ypos p)"
    and "\<not> fl_lt (ypos p) (Fin 0)"
    and "fl_lt (fl_abs gx) (Fin (5 / 10))"
    and "\<not> fl_lt (battery p) (Fin 20)"
  shows "\<exists>st' cmd. control_step st p = Inr (st', cmd) \<and>
           speed st' =
             (if fl_lt (Fin 20) (battery p) then min 5 (speed st + 1) else speed st) \<and>
           cmd_speed cmd = speed st'"
proof -
  from control_step_total [OF assms(1,2,3)] obtain st' cmd
    where step: "control_step st p = Inr (st', cmd)" by blast
  from control_step_speed [OF step assms(1)] assms(4,5) tilt_small_not_large [OF assms(4)]
  have "speed st' =
          (if fl_lt (Fin 20) (battery p) then min 5 (speed st + 1) else speed st)"
    and "cmd_speed cmd = speed st'"
    by simp_all
  with step show ?thesis by blast
qed

theorem speed_increase_above_20_witness:
  "gyro \<lparr>xpos = Fin 0, ypos = Fin 0, battery = Fin 21, gyro = [Fin 0, Fin 0, Fin 0],
          wind = Fin 0, dust = Fin 0, sensor = ''GREEN''\<rparr> = [Fin 0, Fin 0, Fin 0]
   \<and> fl_finite (Fin 0) \<and> \<not> fl_lt (Fin 0) (Fin 0)
   \<and> fl_lt (fl_abs (Fin 0)) (Fin (5 / 10)) \<and> \<not> fl_lt (Fin 21) (Fin 20)
   \<and> (\<exists>st' cmd.
        control_step \<lparr>current_movement = Fwd, speed = 3\<rparr>
          \<lparr>xpos = Fin 0, ypos = Fin 0, battery = Fin 21, gyro = [Fin 0, Fin 0, Fin 0],
            wind = Fin 0, dust = Fin 0, sensor = ''GREEN''\<rparr> = Inr (st', cmd)
        \<and> speed st' = 4 \<and> cmd_speed cmd = 4)"
  using speed_increase_above_20
    [of "\<lparr>xpos = Fin 0, ypos = Fin 0, battery = Fin 21, gyro = [Fin 0, Fin 0, Fin 0],
          wind = Fin 0, dust = Fin 0, sensor = ''GREEN''\<rparr>" "Fin 0" "Fin 0" "Fin 0"
        "\<lparr>current_movement = Fwd, speed = 3\<rparr>"]
  by (auto simp add: fl_finite_def overflows_def)

text \<open>
  C8. The claim: every record that is not crashed, with battery below 20, gets a
  command with speed 1. The telemetry string with battery 15 whose altitude is a 1
  followed by 309 zeros decodes to a record with an infinite altitude; the record is
  not crashed, and no speed is set or sent: the altitude command, computed before
  the battery is looked at, raises \<^verbatim>\<open>OverflowError\<close>.
\<close>

theorem low_battery_overflow_no_command:
  "parse_telemetry
     (encode_telemetry (False, ''0'', []) (False, CHR ''1'' # replicate 309 CHR ''0'', [])
        (False, ''15'', []) (False, ''0'', []) (False, ''0'', []) (False, ''0'', [])
        (False, ''0'', []) (False, ''0'', []) ''GREEN'') =
     Some \<lparr>xpos = Fin 0, ypos = PInf, battery = Fin 15, gyro = [Fin 0, Fin 0, Fin 0],
           wind = Fin 0, dust = Fin 0, sensor = ''GREEN''\<rparr>
   \<and> check_crash
       \<lparr>xpos = Fin 0, ypos = PInf, battery = Fin 15, gyro = [Fin 0, Fin 0, Fin 0],
         wind = Fin 0, dust = Fin 0, sensor = ''GREEN''\<rparr> = Inr False
   \<and> fl_lt (Fin 15) (Fin 20)
   \<and> control_step initial_state
       \<lparr>xpos = Fin 0, ypos = PInf, battery = Fin 15, gyro = [Fin 0, Fin 0, Fin 0],
         wind = Fin 0, dust = Fin 0, sensor = ''GREEN''\<rparr> = Inl OverflowError"
proof -
  have "parse_telemetry
     (encode_telemetry (False, ''0'', []) (False, CHR ''1'' # replicate 309 CHR ''0'', [])
        (False, ''15'', []) (False, ''0'', []) (False, ''0'', []) (False, ''0'', [])
        (False, ''0'', []) (False, ''0'', []) ''GREEN'') =
     Some \<lparr>xpos = fl_of_real (number_value (False, ''0'', [])),
           ypos = fl_of_real (number_value (False, CHR ''1'' # replicate 309 CHR ''0'', [])),
           battery = fl_of_real (number_value (False, ''15'', [])),
           gyro = [fl_of_real (number_value (False, ''0'', [])),
                   fl_of_real (number_value (False, ''0'', [])),
                   fl_of_real (number_value (False, ''0'', []))],
           wind = fl_of_real (number_value (False, ''0'', [])),
           dust = fl_of_real (number_value (False, ''0'', [])), sensor = ''GREEN''\<rparr>"
    by (rule parse_telemetry_encode) (simp_all add: number_ok_one_zeros is_word_def)
  moreover have "fl_of_real (10 ^ 309) = PInf" "fl_of_real 0 = Fin 0" "fl_of_real 15 = Fin 15"
    by (simp_all add: fl_of_real_def overflows_def)
  moreover have "check_crash
       \<lparr>xpos = Fin 0, ypos = PInf, battery = Fin 15, gyro = [Fin 0, Fin 0, Fin 0],
         wind = Fin 0, dust = Fin 0, sensor = ''GREEN''\<rparr> = Inr False"
    by (simp add: policy_defs)
  moreover have "control_step initial_state
       \<lparr>xpos = Fin 0, ypos = PInf, battery = Fin 15, gyro = [Fin 0, Fin 0, Fin 0],
         wind = Fin 0, dust = Fin 0, sensor = ''GREEN''\<rparr> = Inl OverflowError"
    by (simp add: policy_defs)
  ultimately show ?thesis by (simp add: number_value_one_zeros)
qed

text \<open>
  C9. The claim: every record that is not crashed gets a command whose movement is
  reverse when \<open>x > 90000\<close>. The telemetry string with \<open>x = 95000\<close> whose altitude
  is a 1 followed by 309 zeros decodes to a record with an infinite altitude; the
  record is not crashed, and no movement is set or sent: the altitude command,
  computed before the lateral override, raises \<^verbatim>\<open>OverflowError\<close>.
\<close>

theorem lateral_override_overflow_no_command:
  "parse_telemetry
     (encode_telemetry (False, ''95000'', []) (False, CHR ''1'' # replicate 309 CHR ''0'', [])
        (False, ''50'', []) (False, ''0'', []) (False, ''0'', []) (False, ''0'', [])
        (False, ''0'', []) (False, ''0'', []) ''GREEN'') =
     Some \<lparr>xpos = Fin 95000, ypos = PInf, battery = Fin 50, gyro = [Fin 0, Fin 0, Fin 0],
           wind = Fin 0, dust = Fin 0, sensor = ''GREEN''\<rparr>
   \<and> check_crash
       \<lparr>xpos = Fin 95000, ypos = PInf, battery = Fin 50, gyro = [Fin 0, Fin 0, Fin 0],
         wind = Fin 0, dust = Fin 0, sensor = ''GREEN''\<rparr> = Inr False
   \<and> fl_lt (Fin 90000) (Fin 95000)
   \<and> control_step initial_state
       \<lparr>xpos = Fin 95000, ypos = PInf, battery = Fin 50, gyro = [Fin 0, Fin 0, Fin 0],
         wind = Fin 0, dust = Fin 0, sensor = ''GREEN''\<rparr> = Inl OverflowError"
proof -
  have "parse_telemetry
     (encode_telemetry (False, ''95000'', []) (False, CHR ''1'' # replicate 309 CHR ''0'', [])
        (False, ''50'', []) (False, ''0'', []) (False, ''0'', []) (False, ''0'', [])
        (False, ''0'', []) (False, ''0'', []) ''GREEN'') =
     Some \<lparr>xpos = fl_of_real (number_value (False, ''95000'', [])),
           ypos = fl_of_real (number_value (False, CHR ''1'' # replicate 309 CHR ''0'', [])),
           battery = fl_of_real (number_value (False, ''50'', [])),
           gyro = [fl_of_real (number_value (False, ''0'', [])),
                   fl_of_real (number_value (False, ''0'', [])),
                   fl_of_real (number_value (False, ''0'', []))],
           wind = fl_of_real (number_value (False, ''0'', [])),
           dust = fl_of_real (number_value (False, ''0'', [])), sensor = ''GREEN''\<rparr>"
    by (rule parse_telemetry_encode) (simp_all add: number_ok_one_zeros is_word_def)
  moreover have "fl_of_real (10 ^ 309) = PInf" "fl_of_real 0 = Fin 0" "fl_of_real 50 = Fin 50"
    "fl_of_real 95000 = Fin 95000"
    by (simp_all add: fl_of_real_def overflows_def)
  moreover have "check_crash
       \<lparr>xpos = Fin 95000, ypos = PInf, battery = Fin 50, gyro = [Fin 0, Fin 0, Fin 0],
         wind = Fin 0, dust = Fin 0, sensor = ''GREEN''\<rparr> = Inr False"
    by (simp add: policy_defs)
  moreover have "control_step initial_state
       \<lparr>xpos = Fin 95000, ypos = PInf, battery = Fin 50, gyro = [Fin 0, Fin 0, Fin 0],
         wind = Fin 0, dust = Fin 0, sensor = ''GREEN''\<rparr> = Inl OverflowError"
    by (simp add: policy_defs)
  ultimately show ?thesis by (simp add: number_value_one_zeros)
qed

text \<open>
  C10. The speed starts at 3 and stays between 1 and 5: whatever envelopes the loop
  receives, every command it sends carries a speed from 1 to 5, and so does the
  state when the loop ends. Every command carries the speed of the state after the
  step that produced it.
\<close>

theorem speed_domain:
  "speed initial_state = 3
   \<and> (\<forall>c \<in> set (fst (drone_control msgs)). 1 \<le> cmd_speed c \<and> cmd_speed c \<le> 5)
   \<and> 1 \<le> speed (snd (drone_control msgs)) \<and> speed (snd (drone_control msgs)) \<le> 5"
proof -
  have "1 \<le> speed initial_state" and "speed initial_state \<le> 5"
    by (simp_all add: initial_state_def)
  from loop_speed_inv [OF this, of msgs] show ?thesis
    by (simp add: drone_control_def initial_state_def)
qed

theorem speed_domain_witness:
  "\<lparr>cmd_speed = 5, cmd_altitude = 100, cmd_movement = Fwd\<rparr>
     \<in> set (fst (drone_control
         [(''ok'', ''X-0-Y-0-BAT-50-GYR-[0,0,0]-WIND-0-DUST-0-SENS-GREEN''),
          (''ok'', ''X-0-Y-100-BAT-50-GYR-[0,0,0]-WIND-0-DUST-0-SENS-GREEN'')]))
   \<and> (1 :: int) \<le> 5 \<and> (5 :: int) \<le> 5
   \<and> speed (snd (drone_control
         [(''ok'', ''X-0-Y-0-BAT-50-GYR-[0,0,0]-WIND-0-DUST-0-SENS-GREEN''),
          (''ok'', ''X-0-Y-100-BAT-50-GYR-[0,0,0]-WIND-0-DUST-0-SENS-GREEN'')])) = 5"
  using speed_domain
    [of "[(''ok'', ''X-0-Y-0-BAT-50-GYR-[0,0,0]-WIND-0-DUST-0-SENS-GREEN''),
          (''ok'', ''X-0-Y-100-BAT-50-GYR-[0,0,0]-WIND-0-DUST-0-SENS-GREEN'')]"]
  by (simp add: drone_control_def initial_state_def decoder_defs policy_defs)

end
